theory Spec2Isabelle
  imports Main
begin

section \<open>Virtual pet simulator (SEP.py): the Pet class\<close>

text \<open>
  The model follows \<^verbatim>\<open>src/SEP.py\<close>. Python's unbounded integers are \<open>int\<close>, the
  attributes of a \<^verbatim>\<open>Pet\<close> object are the fields of a record, and a method that mutates
  \<^verbatim>\<open>self\<close> is a function from the old object to the new one. The lines that
  \<^verbatim>\<open>tick\<close> prints are collected in a list, in the order in which they are printed.
\<close>

subsection \<open>Constants and clamp\<close>

definition MIN_LEVEL :: int where
  "MIN_LEVEL = 0"

definition MAX_LEVEL :: int where
  "MAX_LEVEL = 100"

text \<open>An entry of \<^verbatim>\<open>RANDOM_EVENTS\<close>: a dict with the keys name, hunger\_delta, happiness\_delta.\<close>

record event =
  event_name :: string
  hunger_delta :: int
  happiness_delta :: int

definition RANDOM_EVENTS :: "event list" where
  "RANDOM_EVENTS =
    [\<lparr>event_name = ''Found a snack'', hunger_delta = -10, happiness_delta = 0\<rparr>,
     \<lparr>event_name = ''Found a toy'', hunger_delta = 0, happiness_delta = 10\<rparr>,
     \<lparr>event_name = ''Got sick'', hunger_delta = 15, happiness_delta = -10\<rparr>,
     \<lparr>event_name = ''Took a nap'', hunger_delta = -5, happiness_delta = 5\<rparr>]"

text \<open>\<^verbatim>\<open>clamp(value, low=MIN_LEVEL, high=MAX_LEVEL)\<close>; every call in the class uses the defaults.\<close>

definition clamp :: "int \<Rightarrow> int \<Rightarrow> int \<Rightarrow> int" where
  "clamp v low high = max low (min high v)"

definition clamp_level :: "int \<Rightarrow> int" where
  "clamp_level v = clamp v MIN_LEVEL MAX_LEVEL"

subsection \<open>The Pet object and its action methods\<close>

record pet =
  name :: string
  hunger :: int
  happiness :: int
  age_hours :: int
  alive :: bool

text \<open>\<^verbatim>\<open>Pet.__init__\<close>\<close>

definition Pet_init :: "string \<Rightarrow> pet" where
  "Pet_init nm = \<lparr>name = nm, hunger = 50, happiness = 50, age_hours = 0, alive = True\<rparr>"

text \<open>
  Each action method is two assignments, executed in the order of the source; the second
  reads the object the first has already updated.
\<close>

definition feed :: "pet \<Rightarrow> pet" where
  "feed self =
    (let self = self\<lparr>hunger := clamp_level (hunger self - 15)\<rparr>;
         self = self\<lparr>happiness := clamp_level (happiness self - 2)\<rparr>
     in self)"

definition play :: "pet \<Rightarrow> pet" where
  "play self =
    (let self = self\<lparr>happiness := clamp_level (happiness self + 12)\<rparr>;
         self = self\<lparr>hunger := clamp_level (hunger self + 6)\<rparr>
     in self)"

definition give_toy :: "pet \<Rightarrow> pet" where
  "give_toy self =
    (let self = self\<lparr>happiness := clamp_level (happiness self + 8)\<rparr>;
         self = self\<lparr>hunger := clamp_level (hunger self + 2)\<rparr>
     in self)"

definition give_medicine :: "pet \<Rightarrow> pet" where
  "give_medicine self =
    (let self = self\<lparr>hunger := clamp_level (hunger self - 8)\<rparr>;
         self = self\<lparr>happiness := clamp_level (happiness self + 3)\<rparr>
     in self)"

subsection \<open>Time: tick\<close>

text \<open>
  The random source is a parameter. For one simulated hour it delivers
  \<^item> \<open>r1\<close>, the value of \<^verbatim>\<open>random.randint(*BASE_HUNGER_INCREASE)\<close> (between 3 and 7),
  \<^item> \<open>r2\<close>, the value of \<^verbatim>\<open>random.randint(*BASE_HAPPINESS_DECREASE)\<close> (between 2 and 5),
  \<^item> \<open>evt\<close>: \<open>None\<close> when \<^verbatim>\<open>random.random() < EVENT_PROBABILITY\<close> is false, and
    \<open>Some e\<close> when it is true and \<^verbatim>\<open>random.choice(RANDOM_EVENTS)\<close> returns \<open>e\<close>.
\<close>

record draws =
  r1 :: int
  r2 :: int
  evt :: "event option"

definition valid_draws :: "draws \<Rightarrow> bool" where
  "valid_draws d \<longleftrightarrow>
     3 \<le> r1 d \<and> r1 d \<le> 7 \<and> 2 \<le> r2 d \<and> r2 d \<le> 5 \<and>
     (case evt d of None \<Rightarrow> True | Some e \<Rightarrow> e \<in> set RANDOM_EVENTS)"

type_synonym out = "string list"

text \<open>
  The body of the loop from \<^verbatim>\<open>self.age_hours += 1\<close> down to the extra penalty for a
  hungry pet (lines 90 to 104), statement by statement.
\<close>

definition hour_adjust :: "draws \<Rightarrow> pet \<times> out \<Rightarrow> pet \<times> out" where
  "hour_adjust d s =
    (let (self, printed) = s;
         self = self\<lparr>age_hours := age_hours self + 1\<rparr>;
         self = self\<lparr>hunger := clamp_level (hunger self + r1 d)\<rparr>;
         self = self\<lparr>happiness := clamp_level (happiness self - r2 d)\<rparr>;
         (self, printed) =
           (case evt d of
              None \<Rightarrow> (self, printed)
            | Some e \<Rightarrow>
               (let self = self\<lparr>hunger := clamp_level (hunger self + hunger_delta e)\<rparr>;
                    self = self\<lparr>happiness := clamp_level (happiness self + happiness_delta e)\<rparr>
                in (self, printed @ [''[Random event] '' @ name self @ '': '' @ event_name e])));
         self = (if hunger self > 80
                 then self\<lparr>happiness := clamp_level (happiness self - 5)\<rparr>
                 else self)
     in (self, printed))"

text \<open>
  The loop \<^verbatim>\<open>for _ in range(hours)\<close>, over the draws of the hours still to come. The three
  \<^verbatim>\<open>return\<close> statements leave the loop with the current object.
\<close>

fun tick_loop :: "draws list \<Rightarrow> pet \<times> out \<Rightarrow> pet \<times> out" where
  "tick_loop [] s = s"
| "tick_loop (d # ds) (self, printed) =
    (if \<not> alive self then (self, printed)
     else
       (let (self, printed) = hour_adjust d (self, printed)
        in if hunger self \<ge> MAX_LEVEL
           then (self\<lparr>alive := False\<rparr>,
                 printed @ [name self @ '' became too hungry. Game over.''])
           else if happiness self \<le> MIN_LEVEL
           then (self\<lparr>alive := False\<rparr>,
                 printed @ [name self @ '' became too sad. Game over.''])
           else tick_loop ds (self, printed)))"

text \<open>
  \<^verbatim>\<open>tick(hours)\<close>: \<^verbatim>\<open>range(hours)\<close> has \<open>nat hours\<close> elements (none when
  \<open>hours \<le> 0\<close>); \<open>rng i\<close> is what the random source delivers in iteration \<open>i\<close>. The
  result is the updated object and the lines printed.
\<close>

definition tick :: "int \<Rightarrow> (nat \<Rightarrow> draws) \<Rightarrow> pet \<Rightarrow> pet \<times> out" where
  "tick hours rng self = tick_loop (map rng [0..<nat hours]) (self, [])"

subsection \<open>Calling the methods\<close>

text \<open>
  A call of a method either returns or raises. No method of \<^verbatim>\<open>Pet\<close> has a
  \<^verbatim>\<open>raise\<close> statement, and on integers neither \<^verbatim>\<open>clamp\<close> nor \<^verbatim>\<open>range\<close> can fail, so
  every call returns: with the updated object and the lines it printed.
\<close>

datatype error = InvalidArgument

datatype call = Feed | Play | GiveToy | GiveMedicine | Tick int "nat \<Rightarrow> draws"

fun invoke :: "call \<Rightarrow> pet \<Rightarrow> error + pet \<times> out" where
  "invoke Feed self = Inr (feed self, [])"
| "invoke Play self = Inr (play self, [])"
| "invoke GiveToy self = Inr (give_toy self, [])"
| "invoke GiveMedicine self = Inr (give_medicine self, [])"
| "invoke (Tick hours rng) self = Inr (tick hours rng self)"

text \<open>A sequence of calls on one object; an exception would end it.\<close>

fun run :: "call list \<Rightarrow> pet \<times> out \<Rightarrow> error + pet \<times> out" where
  "run [] s = Inr s"
| "run (c # cs) (self, printed) =
    (case invoke c self of
       Inl e \<Rightarrow> Inl e
     | Inr (self', printed') \<Rightarrow> run cs (self', printed @ printed'))"

subsection \<open>Notions of the specification\<close>

text \<open>The data model's range of the two levels.\<close>

definition in_range :: "pet \<Rightarrow> bool" where
  "in_range p \<longleftrightarrow> 0 \<le> hunger p \<and> hunger p \<le> 100 \<and> 0 \<le> happiness p \<and> happiness p \<le> 100"

text \<open>
  Hours until terminal, in the words of the specification: the number of hours processed
  until a terminal transition (hunger = 100, or happiness = 0, after the adjustments of the
  hour) occurs, the terminal hour counted; nothing is processed for a pet that is not
  alive. The draws of the hours to come are \<open>ds\<close>; the result is \<open>None\<close> when no
  terminal transition occurs within them.
\<close>

fun hours_until_terminal :: "draws list \<Rightarrow> pet \<Rightarrow> nat option" where
  "hours_until_terminal [] p = (if alive p then None else Some 0)"
| "hours_until_terminal (d # ds) p =
    (if \<not> alive p then Some 0
     else
       (let p1 = fst (hour_adjust d (p, []))
        in if hunger p1 = 100 \<or> happiness p1 = 0 then Some 1
           else map_option Suc (hours_until_terminal ds p1)))"

subsection \<open>Example inputs\<close>

text \<open>
  Random sources: one that always delivers the largest rise of hunger, the smallest fall of
  happiness and no event; one with the draws 5 and 3 and no event; one with the draws 5 and
  3 and the event ``Got sick''; and the draws of one hour with the largest rise and the
  largest fall.
\<close>

definition hungry_rng :: "nat \<Rightarrow> draws" where
  "hungry_rng i = \<lparr>r1 = 7, r2 = 2, evt = None\<rparr>"

definition calm_rng :: "nat \<Rightarrow> draws" where
  "calm_rng i = \<lparr>r1 = 5, r2 = 3, evt = None\<rparr>"

definition sick_rng :: "nat \<Rightarrow> draws" where
  "sick_rng i = \<lparr>r1 = 5, r2 = 3, evt = Some (RANDOM_EVENTS ! 2)\<rparr>"

definition worst_draws :: draws where
  "worst_draws = \<lparr>r1 = 7, r2 = 5, evt = None\<rparr>"

text \<open>
  Pets: the one that eight hours of \<open>hungry_rng\<close> make of a new pet, one hour away from
  both terminal conditions, one that an illness will sadden to death, and one that is
  almost full.
\<close>

definition starved_pet :: pet where
  "starved_pet = \<lparr>name = ''Rex'', hunger = 100, happiness = 14, age_hours = 8, alive = False\<rparr>"

definition frail_pet :: pet where
  "frail_pet = \<lparr>name = ''Rex'', hunger = 95, happiness = 3, age_hours = 20, alive = True\<rparr>"

definition gloomy_pet :: pet where
  "gloomy_pet = \<lparr>name = ''Rex'', hunger = 70, happiness = 17, age_hours = 4, alive = True\<rparr>"

definition peckish_pet :: pet where
  "peckish_pet = \<lparr>name = ''Rex'', hunger = 10, happiness = 50, age_hours = 3, alive = True\<rparr>"

section \<open>Properties\<close>

subsection \<open>Auxiliary facts\<close>

lemma clamp_level_bounds: "0 \<le> clamp_level v \<and> clamp_level v \<le> 100"
  by (simp add: clamp_level_def clamp_def MIN_LEVEL_def MAX_LEVEL_def)

lemma clamp_level_lo [simp]: "0 \<le> clamp_level v"
  by (simp add: clamp_level_bounds)

lemma clamp_level_hi [simp]: "clamp_level v \<le> 100"
  by (simp add: clamp_level_bounds)

lemma example_draws_valid:
  "valid_draws (hungry_rng i) \<and> valid_draws (calm_rng i) \<and> valid_draws (sick_rng i) \<and>
   valid_draws worst_draws"
  by (simp add: valid_draws_def hungry_rng_def calm_rng_def sick_rng_def worst_draws_def
      RANDOM_EVENTS_def)

lemma hour_adjust_frame:
  "age_hours (fst (hour_adjust d (p, out))) = age_hours p + 1 \<and>
   alive (fst (hour_adjust d (p, out))) = alive p \<and>
   name (fst (hour_adjust d (p, out))) = name p"
  by (simp add: hour_adjust_def Let_def split: option.split)

lemma hour_adjust_in_range: "in_range (fst (hour_adjust d (p, out)))"
  by (simp add: hour_adjust_def Let_def in_range_def split: option.split)

lemma hour_adjust_fst: "fst (hour_adjust d (p, out)) = fst (hour_adjust d (p, []))"
  by (simp add: hour_adjust_def Let_def split: option.split)

lemma hour_adjust_levels:
  assumes "hour_adjust d (p, out) = (p1, out1)"
  shows "(hunger p1 \<ge> MAX_LEVEL \<longleftrightarrow> hunger p1 = 100) \<and>
         (happiness p1 \<le> MIN_LEVEL \<longleftrightarrow> happiness p1 = 0)"
proof -
  have "in_range (fst (hour_adjust d (p, out)))"
    by (rule hour_adjust_in_range)
  with assms have "in_range p1" by simp
  then show ?thesis
    by (auto simp: in_range_def MAX_LEVEL_def MIN_LEVEL_def)
qed

lemma tick_loop_dead: "\<not> alive p \<Longrightarrow> tick_loop ds (p, out) = (p, out)"
  by (cases ds) simp_all

declare tick_loop.simps(2) [simp del]

lemma tick_loop_step:
  assumes "alive p" and "hour_adjust d (p, out) = (p1, out1)"
  shows "tick_loop (d # ds) (p, out) =
     (if hunger p1 = 100
      then (p1\<lparr>alive := False\<rparr>, out1 @ [name p1 @ '' became too hungry. Game over.''])
      else if happiness p1 = 0
      then (p1\<lparr>alive := False\<rparr>, out1 @ [name p1 @ '' became too sad. Game over.''])
      else tick_loop ds (p1, out1))"
  using assms hour_adjust_levels [OF assms(2)] by (simp add: tick_loop.simps(2))

lemma tick_loop_in_range:
  "in_range p \<Longrightarrow> in_range (fst (tick_loop ds (p, out)))"
proof (induction ds arbitrary: p out)
  case Nil
  then show ?case by simp
next
  case (Cons d ds)
  show ?case
  proof (cases "alive p")
    case False
    with Cons.prems show ?thesis by (simp add: tick_loop_dead)
  next
    case True
    obtain p1 out1 where h: "hour_adjust d (p, out) = (p1, out1)"
      by (cases "hour_adjust d (p, out)")
    have r: "in_range p1"
      using hour_adjust_in_range [of d p out] h by simp
    from r have "in_range (p1\<lparr>alive := False\<rparr>)"
      by (simp add: in_range_def)
    with r Cons.IH [OF r, of out1] show ?thesis
      by (simp add: tick_loop_step [OF True h])
  qed
qed

lemma action_in_range:
  "in_range (feed p)" "in_range (play p)" "in_range (give_toy p)" "in_range (give_medicine p)"
  by (simp_all add: feed_def play_def give_toy_def give_medicine_def in_range_def)

lemma invoke_in_range:
  "in_range p \<Longrightarrow> \<exists>p' printed. invoke c p = Inr (p', printed) \<and> in_range p'"
proof (cases c)
  case (Tick hours rng)
  assume "in_range p"
  then have "in_range (fst (tick hours rng p))"
    by (simp add: tick_def tick_loop_in_range)
  then show ?thesis
    using Tick by (cases "tick hours rng p") simp
qed (simp_all add: action_in_range)

lemma run_in_range:
  "in_range p \<Longrightarrow> \<exists>p' printed. run cs (p, out) = Inr (p', printed) \<and> in_range p'"
proof (induction cs arbitrary: p out)
  case Nil
  then show ?case by simp
next
  case (Cons c cs)
  from invoke_in_range [OF Cons.prems, of c]
  obtain p1 o1 where 1: "invoke c p = Inr (p1, o1)" and 2: "in_range p1"
    by blast
  from Cons.IH [OF 2, of "out @ o1"] 1 show ?case
    by simp
qed

lemma tick_loop_age:
  "age_hours (fst (tick_loop (take k ds) (p, out))) =
     age_hours p + int (case hours_until_terminal ds p of
                          None \<Rightarrow> min k (length ds) | Some h \<Rightarrow> min k h)"
proof (induction ds arbitrary: k p out)
  case Nil
  then show ?case by simp
next
  case (Cons d ds)
  show ?case
  proof (cases k)
    case 0
    then show ?thesis by (simp add: Let_def split: option.split)
  next
    case (Suc k')
    show ?thesis
    proof (cases "alive p")
      case False
      then show ?thesis by (simp add: Suc tick_loop_dead)
    next
      case True
      obtain p1 out1 where h: "hour_adjust d (p, out) = (p1, out1)"
        by (cases "hour_adjust d (p, out)")
      have p1: "fst (hour_adjust d (p, [])) = p1"
        using hour_adjust_fst [of d p out] h by simp
      have age: "age_hours p1 = age_hours p + 1"
        using hour_adjust_frame [of d p out] h by simp
      show ?thesis
        using True age Cons.IH [of k' p1 out1]
        by (simp add: Suc tick_loop_step [OF True h] p1 split: option.split)
    qed
  qed
qed

lemma tick_loop_alive:
  "alive (fst (tick_loop ds (p, out))) \<longleftrightarrow> hours_until_terminal ds p = None"
proof (induction ds arbitrary: p out)
  case Nil
  then show ?case by simp
next
  case (Cons d ds)
  show ?case
  proof (cases "alive p")
    case False
    then show ?thesis by (simp add: tick_loop_dead)
  next
    case True
    obtain p1 out1 where h: "hour_adjust d (p, out) = (p1, out1)"
      by (cases "hour_adjust d (p, out)")
    have p1: "fst (hour_adjust d (p, [])) = p1"
      using hour_adjust_fst [of d p out] h by simp
    show ?thesis
      using True Cons.IH [of p1 out1]
      by (simp add: tick_loop_step [OF True h] p1)
  qed
qed


lemma run_dead:
  "\<not> alive p \<Longrightarrow> \<exists>p' printed. run cs (p, out) = Inr (p', printed) \<and> \<not> alive p'"
proof (induction cs arbitrary: p out)
  case Nil
  then show ?case by simp
next
  case (Cons c cs)
  have "\<exists>p1 o1. invoke c p = Inr (p1, o1) \<and> \<not> alive p1"
    using Cons.prems
    by (cases c)
      (simp_all add: feed_def play_def give_toy_def give_medicine_def tick_def tick_loop_dead)
  then obtain p1 o1 where 1: "invoke c p = Inr (p1, o1)" and 2: "\<not> alive p1"
    by blast
  from Cons.IH [OF 2, of "out @ o1"] 1 show ?case
    by simp
qed

lemma tick_loop_dies:
  "alive p \<Longrightarrow> \<not> alive (fst (tick_loop ds (p, out))) \<Longrightarrow>
     hunger (fst (tick_loop ds (p, out))) = 100 \<or> happiness (fst (tick_loop ds (p, out))) = 0"
proof (induction ds arbitrary: p out)
  case Nil
  then show ?case by simp
next
  case (Cons d ds)
  obtain p1 out1 where h: "hour_adjust d (p, out) = (p1, out1)"
    by (cases "hour_adjust d (p, out)")
  have a1: "alive p1"
    using hour_adjust_frame [of d p out] h Cons.prems(1) by simp
  show ?case
  proof (cases "hunger p1 = 100 \<or> happiness p1 = 0")
    case True
    then show ?thesis
      by (auto simp: tick_loop_step [OF Cons.prems(1) h])
  next
    case False
    with Cons.prems(2) have "\<not> alive (fst (tick_loop ds (p1, out1)))"
      by (simp add: tick_loop_step [OF Cons.prems(1) h])
    from Cons.IH [OF a1 this] False show ?thesis
      by (simp add: tick_loop_step [OF Cons.prems(1) h])
  qed
qed


subsection \<open>A pet that is not alive\<close>

text \<open>
  Claim C1 says that every call on a pet that is not alive is a no-op. As stated this fails
  for the four action methods: they have no test of \<open>alive\<close>. The pet that starved after
  eight hours is fed, and its hunger falls from 100 to 85.
\<close>

theorem dead_pet_feed_counterexample:
  "fst (tick 8 hungry_rng (Pet_init ''Rex'')) = starved_pet \<and>
   \<not> alive starved_pet \<and>
   invoke Feed starved_pet = Inr (starved_pet\<lparr>hunger := 85, happiness := 12\<rparr>, []) \<and>
   hunger (feed starved_pet) \<noteq> hunger starved_pet \<and>
   happiness (feed starved_pet) \<noteq> happiness starved_pet"
proof -
  have "tick 8 hungry_rng (Pet_init ''Rex'') =
      (starved_pet, [''Rex became too hungry. Game over.''])"
    by code_simp
  then show ?thesis
    by (simp add: starved_pet_def feed_def clamp_level_def clamp_def MIN_LEVEL_def MAX_LEVEL_def)
qed

text \<open>
  Claim C1 (amended). For a pet that is not alive, no call raises; tick returns the pet unchanged
  and prints nothing; feed, play, give\_toy and give\_medicine leave name, age\_hours and
  alive unchanged and set hunger and happiness to the same clamped values as for a living
  pet.
\<close>

theorem dead_pet_calls:
  assumes "\<not> alive p"
  shows "invoke (Tick hours rng) p = Inr (p, []) \<and>
         invoke Feed p = Inr (p\<lparr>hunger := clamp_level (hunger p - 15),
                                 happiness := clamp_level (happiness p - 2)\<rparr>, []) \<and>
         invoke Play p = Inr (p\<lparr>happiness := clamp_level (happiness p + 12),
                                 hunger := clamp_level (hunger p + 6)\<rparr>, []) \<and>
         invoke GiveToy p = Inr (p\<lparr>happiness := clamp_level (happiness p + 8),
                                    hunger := clamp_level (hunger p + 2)\<rparr>, []) \<and>
         invoke GiveMedicine p = Inr (p\<lparr>hunger := clamp_level (hunger p - 8),
                                         happiness := clamp_level (happiness p + 3)\<rparr>, [])"
  using assms
  by (simp add: tick_def tick_loop_dead feed_def play_def give_toy_def give_medicine_def)

theorem dead_pet_calls_witness:
  "\<not> alive starved_pet \<and>
   invoke (Tick 5 hungry_rng) starved_pet = Inr (starved_pet, []) \<and>
   invoke Feed starved_pet = Inr (starved_pet\<lparr>hunger := 85, happiness := 12\<rparr>, []) \<and>
   invoke Play starved_pet = Inr (starved_pet\<lparr>happiness := 26, hunger := 100\<rparr>, []) \<and>
   invoke GiveToy starved_pet = Inr (starved_pet\<lparr>happiness := 22, hunger := 100\<rparr>, []) \<and>
   invoke GiveMedicine starved_pet = Inr (starved_pet\<lparr>hunger := 92, happiness := 17\<rparr>, [])"
proof -
  have d: "\<not> alive starved_pet"
    by (simp add: starved_pet_def)
  show ?thesis
    using d dead_pet_calls [OF d, of 5 hungry_rng]
    by (simp add: starved_pet_def clamp_level_def clamp_def MIN_LEVEL_def MAX_LEVEL_def)
qed

subsection \<open>The levels stay in range\<close>

text \<open>
  Claim C2. Starting from a newly created pet, after any sequence of calls of feed, play,
  give\_toy, give\_medicine and tick (with any number of hours and any random draws), every
  call returns and hunger and happiness are integers between 0 and 100. Every prefix of a
  sequence is a sequence, so this holds after every single operation, and every reachable
  state is the result of such a sequence.
\<close>

theorem levels_always_in_range:
  "\<exists>p printed. run cs (Pet_init nm, []) = Inr (p, printed) \<and>
     0 \<le> hunger p \<and> hunger p \<le> 100 \<and> 0 \<le> happiness p \<and> happiness p \<le> 100"
proof -
  have "in_range (Pet_init nm)"
    by (simp add: in_range_def Pet_init_def)
  from run_in_range [OF this, of cs "[]"] show ?thesis
    by (simp add: in_range_def)
qed


subsection \<open>A number of hours below one\<close>

text \<open>
  Claim C3 says that tick fails with InvalidArgument when hours is below 1. As stated this
  fails: with 0 hours the call returns, with the pet unchanged.
\<close>

theorem tick_zero_hours_counterexample:
  "invoke (Tick 0 hungry_rng) (Pet_init ''Rex'') = Inr (Pet_init ''Rex'', []) \<and>
   invoke (Tick 0 hungry_rng) (Pet_init ''Rex'') \<noteq> Inl InvalidArgument"
  by (simp add: tick_def)

text \<open>
  Claim C3 (amended). For every number of hours below 1, tick raises nothing: the loop has no
  iteration, the call returns the pet unchanged and prints nothing.
\<close>

theorem tick_nonpositive_hours:
  assumes "hours < 1"
  shows "invoke (Tick hours rng) p = Inr (p, [])"
  using assms by (simp add: tick_def)

theorem tick_nonpositive_hours_witness:
  "(-3::int) < 1 \<and> invoke (Tick (-3) hungry_rng) (Pet_init ''Rex'') = Inr (Pet_init ''Rex'', [])"
  using tick_nonpositive_hours [of "-3" hungry_rng "Pet_init ''Rex''"] by simp

subsection \<open>How far tick advances the age\<close>

text \<open>
  Claim C4. For every positive \<open>n\<close>, \<open>tick n\<close> increases age\_hours by exactly
  \<open>min n h\<close>, where \<open>h\<close> is the number of hours until the terminal transition (the
  terminal hour counted, 0 for a pet that is not alive), looked for in any window of
  \<open>m \<ge> n\<close> hours; when there is none in the window the increase is \<open>n\<close>. In particular
  the increase is exactly \<open>n\<close> when the pet is alive after the call.
\<close>

theorem tick_age_hours:
  assumes "0 < n" and "nat n \<le> m"
  shows "age_hours (fst (tick n rng p)) =
           age_hours p + (case hours_until_terminal (map rng [0..<m]) p of
                            None \<Rightarrow> n | Some h \<Rightarrow> min n (int h)) \<and>
         (alive (fst (tick n rng p)) \<longrightarrow> age_hours (fst (tick n rng p)) = age_hours p + n)"
proof
  have tk: "take (nat n) (map rng [0..<m]) = map rng [0..<nat n]"
    using assms(2) by (simp add: take_map min_def)
  show "age_hours (fst (tick n rng p)) =
           age_hours p + (case hours_until_terminal (map rng [0..<m]) p of
                            None \<Rightarrow> n | Some h \<Rightarrow> min n (int h))"
    using tick_loop_age [of "nat n" "map rng [0..<m]" p "[]"] assms
    by (simp add: tick_def tk min_def split: option.split)
  show "alive (fst (tick n rng p)) \<longrightarrow> age_hours (fst (tick n rng p)) = age_hours p + n"
    using tick_loop_age [of "nat n" "map rng [0..<nat n]" p "[]"]
      tick_loop_alive [of "map rng [0..<nat n]" p "[]"] assms(1)
    by (simp add: tick_def)
qed

theorem tick_age_hours_witness:
  "(0::int) < 10 \<and> nat 10 \<le> (12::nat) \<and>
   hours_until_terminal (map hungry_rng [0..<12]) (Pet_init ''Rex'') = Some 8 \<and>
   age_hours (fst (tick 10 hungry_rng (Pet_init ''Rex''))) = age_hours (Pet_init ''Rex'') + 8"
proof -
  have h: "hours_until_terminal (map hungry_rng [0..<12]) (Pet_init ''Rex'') = Some 8"
    by code_simp
  show ?thesis
    using tick_age_hours [of 10 12 hungry_rng "Pet_init ''Rex''"] h by simp
qed


subsection \<open>The terminal check of an hour\<close>

text \<open>
  Claim C5. In an hour of tick on a living pet, let \<open>p1\<close> be the pet after the adjustments
  of the hour. If its hunger is 100, alive is set to false, the starvation message is
  printed and the loop ends, whatever hours remain; otherwise, if its happiness is 0, alive
  is set to false, the sadness message is printed and the loop ends; otherwise the loop goes
  on with the remaining hours. The hunger check comes first: when both hold, the message is
  the one of starvation.
\<close>

theorem terminal_check:
  assumes "alive p" and "hour_adjust d (p, out) = (p1, out1)"
  shows "tick_loop (d # ds) (p, out) =
     (if hunger p1 = 100
      then (p1\<lparr>alive := False\<rparr>, out1 @ [name p1 @ '' became too hungry. Game over.''])
      else if happiness p1 = 0
      then (p1\<lparr>alive := False\<rparr>, out1 @ [name p1 @ '' became too sad. Game over.''])
      else tick_loop ds (p1, out1))"
  using assms by (rule tick_loop_step)

theorem terminal_check_witness:
  "alive frail_pet \<and>
   hour_adjust worst_draws (frail_pet, []) =
     (frail_pet\<lparr>hunger := 100, happiness := 0, age_hours := 21\<rparr>, []) \<and>
   tick_loop [worst_draws, worst_draws, worst_draws] (frail_pet, []) =
     (frail_pet\<lparr>hunger := 100, happiness := 0, age_hours := 21, alive := False\<rparr>,
      [''Rex became too hungry. Game over.'']) \<and>
   alive gloomy_pet \<and>
   hour_adjust (sick_rng 0) (gloomy_pet, []) =
     (gloomy_pet\<lparr>hunger := 90, happiness := 0, age_hours := 5\<rparr>,
      [''[Random event] Rex: Got sick'']) \<and>
   tick_loop [sick_rng 0, calm_rng 1] (gloomy_pet, []) =
     (gloomy_pet\<lparr>hunger := 90, happiness := 0, age_hours := 5, alive := False\<rparr>,
      [''[Random event] Rex: Got sick'', ''Rex became too sad. Game over.''])"
proof -
  have a: "alive frail_pet"
    by (simp add: frail_pet_def)
  have h: "hour_adjust worst_draws (frail_pet, []) =
      (frail_pet\<lparr>hunger := 100, happiness := 0, age_hours := 21\<rparr>, [])"
    by (simp add: hour_adjust_def worst_draws_def frail_pet_def Let_def
        clamp_level_def clamp_def MIN_LEVEL_def MAX_LEVEL_def)
  have b: "alive gloomy_pet"
    by (simp add: gloomy_pet_def)
  have k: "hour_adjust (sick_rng 0) (gloomy_pet, []) =
      (gloomy_pet\<lparr>hunger := 90, happiness := 0, age_hours := 5\<rparr>,
       [''[Random event] Rex: Got sick''])"
    by (simp add: hour_adjust_def sick_rng_def RANDOM_EVENTS_def gloomy_pet_def Let_def
        clamp_level_def clamp_def MIN_LEVEL_def MAX_LEVEL_def)
  show ?thesis
    using a h b k terminal_check [OF a h, of "[worst_draws, worst_draws]"]
      terminal_check [OF b k, of "[calm_rng 1]"]
    by (simp add: frail_pet_def gloomy_pet_def)
qed

subsection \<open>One hour with fixed draws\<close>

text \<open>
  Claim C6. With the draws 5 for the rise of hunger and 3 for the fall of happiness and
  no random event, a living pet with hunger 50 and happiness 50 has hunger 55, happiness 47
  and is alive after \<open>tick 1\<close>.
\<close>

theorem tick_fixed_draws:
  assumes "hunger p = 50" and "happiness p = 50" and "alive p"
    and "r1 (rng 0) = 5" and "r2 (rng 0) = 3" and "evt (rng 0) = None"
  shows "hunger (fst (tick 1 rng p)) = 55 \<and> happiness (fst (tick 1 rng p)) = 47 \<and>
         alive (fst (tick 1 rng p))"
  using assms
  by (simp add: tick_def tick_loop.simps(2) hour_adjust_def Let_def
      clamp_level_def clamp_def MIN_LEVEL_def MAX_LEVEL_def)

theorem tick_fixed_draws_witness:
  "hunger (Pet_init ''Rex'') = 50 \<and> happiness (Pet_init ''Rex'') = 50 \<and> alive (Pet_init ''Rex'') \<and>
   r1 (calm_rng 0) = 5 \<and> r2 (calm_rng 0) = 3 \<and> evt (calm_rng 0) = None \<and>
   hunger (fst (tick 1 calm_rng (Pet_init ''Rex''))) = 55 \<and>
   happiness (fst (tick 1 calm_rng (Pet_init ''Rex''))) = 47 \<and>
   alive (fst (tick 1 calm_rng (Pet_init ''Rex'')))"
  using tick_fixed_draws [of "Pet_init ''Rex''" calm_rng]
  by (simp add: Pet_init_def calm_rng_def)


subsection \<open>The order of the steps of an hour\<close>

text \<open>
  Claim C7. In an hour of tick on a living pet, the deltas of the random event (when there
  is one) are applied to the levels before hunger is compared with 80; when hunger is above
  80 at that point, happiness loses another 5, clamped; and the terminal check reads the
  happiness after that penalty.
\<close>

theorem tick_hour_order:
  assumes "alive p"
  shows "let d = rng 0;
             h2 = clamp_level (hunger p + r1 d);
             m3 = clamp_level (happiness p - r2 d);
             h4 = (case evt d of None \<Rightarrow> h2 | Some e \<Rightarrow> clamp_level (h2 + hunger_delta e));
             m4 = (case evt d of None \<Rightarrow> m3 | Some e \<Rightarrow> clamp_level (m3 + happiness_delta e));
             m5 = (if h4 > 80 then clamp_level (m4 - 5) else m4);
             p' = fst (tick 1 rng p)
         in hunger p' = h4 \<and> happiness p' = m5 \<and> (alive p' \<longleftrightarrow> h4 < 100 \<and> 0 < m5)"
proof -
  obtain p1 out1 where h: "hour_adjust (rng 0) (p, []) = (p1, out1)"
    by (cases "hour_adjust (rng 0) (p, [])")
  have t: "tick 1 rng p = tick_loop [rng 0] (p, [])"
    by (simp add: tick_def)
  have p1: "p1 = fst (hour_adjust (rng 0) (p, []))"
    using h by simp
  have a1: "alive p1"
    using hour_adjust_frame [of "rng 0" p "[]"] h assms by simp
  have r1: "in_range p1"
    using hour_adjust_in_range [of "rng 0" p "[]"] h by simp
  have res: "hunger (fst (tick 1 rng p)) = hunger p1 \<and>
             happiness (fst (tick 1 rng p)) = happiness p1 \<and>
             (alive (fst (tick 1 rng p)) \<longleftrightarrow> hunger p1 < 100 \<and> 0 < happiness p1)"
    using a1 r1 by (auto simp: t tick_loop_step [OF assms h] in_range_def)
  have lv: "hunger p1 =
      (case evt (rng 0) of None \<Rightarrow> clamp_level (hunger p + r1 (rng 0))
       | Some e \<Rightarrow> clamp_level (clamp_level (hunger p + r1 (rng 0)) + hunger_delta e))"
    unfolding p1 by (simp add: hour_adjust_def Let_def split: option.split)
  have lm: "happiness p1 =
      (if hunger p1 > 80
       then clamp_level ((case evt (rng 0) of None \<Rightarrow> clamp_level (happiness p - r2 (rng 0))
         | Some e \<Rightarrow> clamp_level (clamp_level (happiness p - r2 (rng 0)) + happiness_delta e)) - 5)
       else (case evt (rng 0) of None \<Rightarrow> clamp_level (happiness p - r2 (rng 0))
         | Some e \<Rightarrow> clamp_level (clamp_level (happiness p - r2 (rng 0)) + happiness_delta e)))"
    unfolding p1 by (simp add: hour_adjust_def Let_def split: option.split)
  show ?thesis
    unfolding Let_def using res lv lm by simp
qed

theorem tick_hour_order_witness:
  "alive gloomy_pet \<and> hunger gloomy_pet = 70 \<and> happiness gloomy_pet = 17 \<and>
   hunger (fst (tick 1 sick_rng gloomy_pet)) = 90 \<and>
   happiness (fst (tick 1 sick_rng gloomy_pet)) = 0 \<and>
   \<not> alive (fst (tick 1 sick_rng gloomy_pet))"
proof -
  have a: "alive gloomy_pet"
    by (simp add: gloomy_pet_def)
  show ?thesis
    using a tick_hour_order [OF a, of sick_rng]
    by (simp add: gloomy_pet_def sick_rng_def RANDOM_EVENTS_def Let_def
        clamp_level_def clamp_def MIN_LEVEL_def MAX_LEVEL_def)
qed

subsection \<open>Feeding\<close>

text \<open>
  Claim C8. feed sets hunger to clamp(hunger - 15) and happiness to clamp(happiness - 2);
  for a pet with hunger 10 and happiness between 2 and 100 (the range of the data model),
  hunger is 0 afterwards and happiness is lower by exactly 2.
\<close>

theorem feed_levels:
  "hunger (feed p) = clamp (hunger p - 15) MIN_LEVEL MAX_LEVEL \<and>
   happiness (feed p) = clamp (happiness p - 2) MIN_LEVEL MAX_LEVEL \<and>
   (hunger p = 10 \<and> 2 \<le> happiness p \<and> happiness p \<le> 100 \<longrightarrow>
      hunger (feed p) = 0 \<and> happiness (feed p) = happiness p - 2)"
  by (simp add: feed_def clamp_level_def clamp_def MIN_LEVEL_def MAX_LEVEL_def)

theorem feed_levels_witness:
  "hunger peckish_pet = 10 \<and> 2 \<le> happiness peckish_pet \<and> happiness peckish_pet \<le> 100 \<and>
   hunger (feed peckish_pet) = 0 \<and> happiness (feed peckish_pet) = 48"
  using feed_levels [of peckish_pet] by (simp add: peckish_pet_def)

subsection \<open>Game over is absorbing\<close>

text \<open>
  Claim C9. A pet that is not alive is not alive after any sequence of calls, none of which
  raises. A single call on a living pet that returns a pet that is not alive is a call of
  tick, and the pet it returns has hunger 100 or happiness 0.
\<close>

theorem game_over_absorbing:
  "(\<not> alive p \<longrightarrow> (\<exists>p' printed. run cs (p, out) = Inr (p', printed) \<and> \<not> alive p')) \<and>
   (alive p \<and> invoke c p = Inr (q, printed) \<and> \<not> alive q \<longrightarrow>
      (\<exists>hours rng. c = Tick hours rng) \<and> (hunger q = 100 \<or> happiness q = 0))"
proof (intro conjI impI)
  assume "\<not> alive p"
  then show "\<exists>p' printed. run cs (p, out) = Inr (p', printed) \<and> \<not> alive p'"
    by (rule run_dead)
next
  assume a: "alive p \<and> invoke c p = Inr (q, printed) \<and> \<not> alive q"
  then show "\<exists>hours rng. c = Tick hours rng"
    by (cases c) (auto simp: feed_def play_def give_toy_def give_medicine_def)
  from a show "hunger q = 100 \<or> happiness q = 0"
  proof (cases c)
    case (Tick hours rng)
    with a have q: "q = fst (tick_loop (map rng [0..<nat hours]) (p, []))"
      by (simp add: tick_def)
    from a tick_loop_dies [of p "map rng [0..<nat hours]" "[]"] show ?thesis
      unfolding q by simp
  qed (auto simp: feed_def play_def give_toy_def give_medicine_def)
qed

theorem game_over_absorbing_witness:
  "\<not> alive starved_pet \<and>
   run [Feed, Tick 3 hungry_rng, Play] (starved_pet, []) =
     Inr (starved_pet\<lparr>hunger := 91, happiness := 24\<rparr>, []) \<and>
   \<not> alive (starved_pet\<lparr>hunger := 91, happiness := 24\<rparr>) \<and>
   alive (Pet_init ''Rex'') \<and>
   invoke (Tick 8 hungry_rng) (Pet_init ''Rex'') =
     Inr (starved_pet, [''Rex became too hungry. Game over.'']) \<and>
   \<not> alive starved_pet \<and> hunger starved_pet = 100"
proof -
  have t: "tick 8 hungry_rng (Pet_init ''Rex'') =
      (starved_pet, [''Rex became too hungry. Game over.''])"
    by code_simp
  have r: "run [Feed, Tick 3 hungry_rng, Play] (starved_pet, []) =
      Inr (starved_pet\<lparr>hunger := 91, happiness := 24\<rparr>, [])"
    by code_simp
  show ?thesis
    using t r
      game_over_absorbing [of starved_pet "[Feed, Tick 3 hungry_rng, Play]" "[]"]
      game_over_absorbing [of "Pet_init ''Rex''" _ _ "Tick 8 hungry_rng" starved_pet
        "[''Rex became too hungry. Game over.'']"]
    by (simp add: starved_pet_def Pet_init_def)
qed

subsection \<open>What the action methods leave alone\<close>

text \<open>
  Claim C10. For every pet, alive or not, feed, play, give\_toy and give\_medicine leave
  name, age\_hours and alive unchanged.
\<close>

theorem actions_frame:
  "name (feed p) = name p \<and> age_hours (feed p) = age_hours p \<and> alive (feed p) = alive p \<and>
   name (play p) = name p \<and> age_hours (play p) = age_hours p \<and> alive (play p) = alive p \<and>
   name (give_toy p) = name p \<and> age_hours (give_toy p) = age_hours p \<and>
   alive (give_toy p) = alive p \<and>
   name (give_medicine p) = name p \<and> age_hours (give_medicine p) = age_hours p \<and>
   alive (give_medicine p) = alive p"
  by (simp add: feed_def play_def give_toy_def give_medicine_def)


end
